theory Spec2Isabelle
  imports Main
begin

section \<open>Python values, dictionaries and exceptions\<close>

text \<open>
  The values that occur in strategy parameters and in evaluation contexts are Python
  strings and Python integers. A dictionary with string keys is a partial map.
\<close>

datatype pyval = PStr string | PInt int

type_synonym dict = "string \<rightharpoonup> pyval"

text \<open>
  The exceptions of the model are instances of Python's class \<open>Exception\<close>, which is what
  the handler \<^verbatim>\<open>except Exception\<close> of \<open>is_enabled\<close> matches. The system-exiting
  exceptions that derive from \<open>BaseException\<close> only (\<open>KeyboardInterrupt\<close>, \<open>SystemExit\<close>,
  \<open>GeneratorExit\<close>) are outside the model.
\<close>

datatype exn =
    KeyError
  | TypeError
  | AttributeError
  | SchedulerAlreadyRunningError
  | SchedulerNotRunningError
  | JobLookupError
  | OtherException string

definition getitem :: "dict \<Rightarrow> string \<Rightarrow> exn + pyval" where
  \<comment> \<open>\<^verbatim>\<open>d[k]\<close>: a missing key raises KeyError\<close>
  "getitem d k = (case d k of None \<Rightarrow> Inl KeyError | Some v \<Rightarrow> Inr v)"

definition lt_int :: "pyval \<Rightarrow> int \<Rightarrow> exn + bool" where
  \<comment> \<open>\<^verbatim>\<open>v < n\<close> for a Python int \<open>n\<close>: a string on the left raises TypeError\<close>
  "lt_int v n = (case v of PInt p \<Rightarrow> Inr (p < n) | PStr s \<Rightarrow> Inl TypeError)"

section \<open>The strategy GradualRolloutSessionId\<close>

text \<open>
  \<^verbatim>\<open>
  def __call__(self, context: dict = None) -> bool:
      percentage = self.parameters["percentage"]
      activation_group = self.parameters["groupId"]
      return percentage < normalized_hash(context["sessionId"], activation_group)
  \<close>
  \<open>normalized_hash\<close> lives in \<open>UnleashClient.utils\<close>, whose source is not available; it
  is a parameter of the model. The context defaults to \<open>None\<close>, and subscripting
  \<open>None\<close> raises TypeError. Python evaluates the left operand \<open>percentage\<close> (a local
  variable) first, then the call on the right with its argument \<open>context["sessionId"]\<close>.
\<close>

definition GradualRolloutSessionId_call ::
  "(pyval \<Rightarrow> pyval \<Rightarrow> int) \<Rightarrow> dict \<Rightarrow> dict option \<Rightarrow> exn + bool" where
  "GradualRolloutSessionId_call normalized_hash parameters context =
     (case getitem parameters ''percentage'' of
        Inl e \<Rightarrow> Inl e
      | Inr percentage \<Rightarrow>
          (case getitem parameters ''groupId'' of
             Inl e \<Rightarrow> Inl e
           | Inr activation_group \<Rightarrow>
               (case context of
                  None \<Rightarrow> Inl TypeError
                | Some ctx \<Rightarrow>
                    (case getitem ctx ''sessionId'' of
                       Inl e \<Rightarrow> Inl e
                     | Inr session_id \<Rightarrow>
                         lt_int percentage (normalized_hash session_id activation_group)))))"

section \<open>The client\<close>

subsection \<open>The durable cache\<close>

text \<open>
  \<open>fcache.cache.FileCache\<close> as the client uses it: a key-value store on disk with a write
  buffer in front of it. Opening a cache of a given application name and directory finds
  what an earlier process persisted there; an assignment goes to the buffer; \<open>sync\<close>
  writes the buffer to disk and empties it; a read looks in the buffer first; \<open>delete\<close>
  removes the store.
\<close>

datatype cached = CachedTime int | CachedData string

record file_cache =
  buffer :: "string \<rightharpoonup> cached"
  disk :: "string \<rightharpoonup> cached"

type_synonym filesystem = "string \<Rightarrow> string option \<Rightarrow> (string \<rightharpoonup> cached)"

definition FileCache :: "filesystem \<Rightarrow> string \<Rightarrow> string option \<Rightarrow> file_cache" where
  "FileCache fs appname app_cache_dir = \<lparr>buffer = Map.empty, disk = fs appname app_cache_dir\<rparr>"

definition cache_setitem :: "file_cache \<Rightarrow> string \<Rightarrow> cached \<Rightarrow> file_cache" where
  "cache_setitem c k v = c\<lparr>buffer := (buffer c)(k \<mapsto> v)\<rparr>"

definition cache_sync :: "file_cache \<Rightarrow> file_cache" where
  "cache_sync c = c\<lparr>buffer := Map.empty, disk := disk c ++ buffer c\<rparr>"

definition cache_get :: "file_cache \<Rightarrow> string \<Rightarrow> cached option" where
  "cache_get c k = (case buffer c k of Some v \<Rightarrow> Some v | None \<Rightarrow> disk c k)"

definition cache_delete :: "file_cache \<Rightarrow> file_cache" where
  "cache_delete c = c\<lparr>buffer := Map.empty, disk := Map.empty\<rparr>"

subsection \<open>The scheduler\<close>

text \<open>
  \<open>apscheduler\<close>'s \<open>BackgroundScheduler\<close> as the client uses it: \<open>start\<close> raises
  \<open>SchedulerAlreadyRunningError\<close> on a scheduler that runs already, \<open>add_job\<close> returns
  a job with a fresh identifier, \<open>Job.remove\<close> raises \<open>JobLookupError\<close> for a job the
  scheduler does not hold, \<open>shutdown\<close> raises \<open>SchedulerNotRunningError\<close> on a scheduler
  that does not run.
\<close>

datatype task = fetch_and_load_features_task | aggregate_and_send_metrics_task

record job =
  job_id :: nat
  func :: task
  seconds :: int

record background_scheduler =
  running :: bool
  jobs :: "job list"
  next_id :: nat

definition BackgroundScheduler :: background_scheduler where
  "BackgroundScheduler = \<lparr>running = False, jobs = [], next_id = 0\<rparr>"

definition scheduler_start :: "background_scheduler \<Rightarrow> exn + background_scheduler" where
  "scheduler_start s =
     (if running s then Inl SchedulerAlreadyRunningError else Inr (s\<lparr>running := True\<rparr>))"

definition add_job :: "background_scheduler \<Rightarrow> task \<Rightarrow> int \<Rightarrow> job \<times> background_scheduler" where
  "add_job s f secs =
     (let j = \<lparr>job_id = next_id s, func = f, seconds = secs\<rparr>
      in (j, s\<lparr>jobs := jobs s @ [j], next_id := Suc (next_id s)\<rparr>))"

definition job_remove :: "background_scheduler \<Rightarrow> job \<Rightarrow> exn + background_scheduler" where
  "job_remove s j =
     (if job_id j \<in> job_id ` set (jobs s)
      then Inr (s\<lparr>jobs := filter (\<lambda>x. job_id x \<noteq> job_id j) (jobs s)\<rparr>)
      else Inl JobLookupError)"

definition scheduler_shutdown :: "background_scheduler \<Rightarrow> exn + background_scheduler" where
  "scheduler_shutdown s =
     (if running s then Inr (s\<lparr>running := False\<rparr>) else Inl SchedulerNotRunningError)"

subsection \<open>Strategies and features\<close>

text \<open>
  The strategy classes that a strategy mapping binds to names: the seven classes of
  \<open>UnleashClient.strategies\<close>, and the classes the caller brings (told apart by a name).
\<close>

datatype strategy_class =
    ApplicationHostname
  | Default
  | GradualRolloutRandom
  | GradualRolloutSessionId
  | GradualRolloutUserId
  | RemoteAddress
  | UserWithId
  | CustomStrategy string

text \<open>
  The source of the class \<open>Feature\<close> is not available. A feature object is modelled by
  what its method \<open>is_enabled(context, default_value)\<close> does with the context and the
  default value: it returns a boolean or raises. What the method may change inside the
  feature object (counters) is not part of the model.
\<close>

type_synonym feature = "dict \<Rightarrow> bool \<Rightarrow> exn + bool"

subsection \<open>Construction\<close>

record init_args =
  url :: string
  app_name :: string
  environment :: string
  instance_id :: string
  refresh_interval :: int
  metrics_interval :: int
  disable_metrics :: bool
  disable_registration :: bool
  custom_headers :: "string \<rightharpoonup> string"
  custom_strategies :: "string \<rightharpoonup> strategy_class"
  cache_directory :: "string option"

record client =
  unleash_url :: string
  unleash_app_name :: string
  unleash_environment :: string
  unleash_instance_id :: string
  unleash_refresh_interval :: int
  unleash_metrics_interval :: int
  unleash_disable_metrics :: bool
  unleash_disable_registration :: bool
  unleash_custom_headers :: "string \<rightharpoonup> string"
  unleash_static_context :: dict
  cache :: file_cache
  features :: "string \<rightharpoonup> feature"
  scheduler :: background_scheduler
  fl_job :: "job option"
  metric_job :: "job option"
  strategy_mapping :: "string \<rightharpoonup> strategy_class"
  is_initialized :: bool

definition rstrip :: "string \<Rightarrow> string \<Rightarrow> string" where
  \<comment> \<open>\<^verbatim>\<open>s.rstrip(chars)\<close>\<close>
  "rstrip s chars = rev (dropWhile (\<lambda>c. c \<in> set chars) (rev s))"

definition static_context :: "string \<Rightarrow> string \<Rightarrow> dict" where
  \<comment> \<open>\<^verbatim>\<open>{"appName": self.unleash_app_name, "environment": self.unleash_environment}\<close>\<close>
  "static_context name env = [''appName'' \<mapsto> PStr name, ''environment'' \<mapsto> PStr env]"

definition default_strategy_mapping :: "string \<rightharpoonup> strategy_class" where
  "default_strategy_mapping =
     [''applicationHostname'' \<mapsto> ApplicationHostname,
      ''default'' \<mapsto> Default,
      ''gradualRolloutRandom'' \<mapsto> GradualRolloutRandom,
      ''gradualRolloutSessionId'' \<mapsto> GradualRolloutSessionId,
      ''gradualRolloutUserId'' \<mapsto> GradualRolloutUserId,
      ''remoteAddress'' \<mapsto> RemoteAddress,
      ''userWithId'' \<mapsto> UserWithId]"

text \<open>
  \<open>__init__\<close>. The constant \<open>METRIC_LAST_SENT_TIME\<close> of \<open>UnleashClient.constants\<close> (a cache
  key), the content of the file system and the reading of the clock
  \<^verbatim>\<open>datetime.now(timezone.utc)\<close> are parameters. The dictionary display
  \<^verbatim>\<open>{**custom_strategies, **default_strategy_mapping}\<close> lets the later entry win, which is
  \<open>++\<close> on maps.
\<close>

definition UnleashClient_init :: "string \<Rightarrow> filesystem \<Rightarrow> int \<Rightarrow> init_args \<Rightarrow> client" where
  "UnleashClient_init METRIC_LAST_SENT_TIME fs now a =
     \<lparr>unleash_url = rstrip (url a) [CHR 0x5C],
      unleash_app_name = app_name a,
      unleash_environment = environment a,
      unleash_instance_id = instance_id a,
      unleash_refresh_interval = refresh_interval a,
      unleash_metrics_interval = metrics_interval a,
      unleash_disable_metrics = disable_metrics a,
      unleash_disable_registration = disable_registration a,
      unleash_custom_headers = custom_headers a,
      unleash_static_context = static_context (app_name a) (environment a),
      cache = cache_sync (cache_setitem (FileCache fs (instance_id a) (cache_directory a))
                METRIC_LAST_SENT_TIME (CachedTime now)),
      features = Map.empty,
      scheduler = BackgroundScheduler,
      fl_job = None,
      metric_job = None,
      strategy_mapping = custom_strategies a ++ default_strategy_mapping,
      is_initialized = False\<rparr>"

subsection \<open>Initialisation\<close>

text \<open>
  \<open>register_client\<close> (of \<open>UnleashClient.api\<close>) and \<open>fetch_and_load_features\<close> (of
  \<open>UnleashClient.periodic_tasks\<close>) talk to the server; their source is not available. The
  model keeps a log of the calls made to them (with the scalar arguments; the headers and
  the strategy mapping are passed along too). \<open>fetch_and_load_features\<close> receives the
  client's \<open>features\<close> dictionary and cache and fills them in place; what it leaves in
  them is a parameter of the model. \<open>int(...)\<close> of an interval that is an \<open>int\<close> already is
  the interval.
\<close>

datatype call =
    register_client_call string string string int
  | fetch_and_load_features_call string string string

record fl_args =
  fl_url :: string
  fl_app_name :: string
  fl_instance_id :: string
  fl_custom_headers :: "string \<rightharpoonup> string"
  fl_cache :: file_cache
  fl_features :: "string \<rightharpoonup> feature"
  fl_strategy_mapping :: "string \<rightharpoonup> strategy_class"

type_synonym fetcher = "fl_args \<Rightarrow> (string \<rightharpoonup> feature) \<times> file_cache"

definition make_fl_args :: "client \<Rightarrow> fl_args" where
  "make_fl_args self =
     \<lparr>fl_url = unleash_url self,
      fl_app_name = unleash_app_name self,
      fl_instance_id = unleash_instance_id self,
      fl_custom_headers = unleash_custom_headers self,
      fl_cache = cache self,
      fl_features = features self,
      fl_strategy_mapping = strategy_mapping self\<rparr>"

definition register_step :: "client \<Rightarrow> call list \<Rightarrow> call list" where
  \<comment> \<open>Modelled from the spec: \<open>register_client\<close>, whose source is missing; the spec has
      the registration call fail without raising ("failure is logged, non-fatal").
      \<^verbatim>\<open>if not self.unleash_disable_registration: register_client(...)\<close>\<close>
  "register_step self log =
     (if \<not> unleash_disable_registration self
      then log @ [register_client_call (unleash_url self) (unleash_app_name self)
                    (unleash_instance_id self) (unleash_metrics_interval self)]
      else log)"

definition fetch_step :: "fetcher \<Rightarrow> client \<Rightarrow> call list \<Rightarrow> client \<times> call list" where
  \<comment> \<open>Modelled from the spec: \<open>fetch_and_load_features\<close>, whose source is missing; the
      spec has a failed fetch leave the state as it is and log, without raising.
      \<^verbatim>\<open>fetch_and_load_features(**fl_args)\<close>\<close>
  "fetch_step fetch self log =
     (let (fs, ca) = fetch (make_fl_args self)
      in (self\<lparr>features := fs, cache := ca\<rparr>,
          log @ [fetch_and_load_features_call (unleash_url self) (unleash_app_name self)
                   (unleash_instance_id self)]))"

definition start_jobs :: "client \<Rightarrow> (exn + unit) \<times> client" where
  \<comment> \<open>from \<^verbatim>\<open>self.scheduler.start()\<close> to the end of \<open>initialize_client\<close>\<close>
  "start_jobs self =
     (case scheduler_start (scheduler self) of
        Inl e \<Rightarrow> (Inl e, self)
      | Inr s0 \<Rightarrow>
          (let (j1, s1) = add_job s0 fetch_and_load_features_task (unleash_refresh_interval self);
               self1 = self\<lparr>scheduler := s1, fl_job := Some j1\<rparr>;
               self2 =
                 (if \<not> unleash_disable_metrics self1
                  then (let (j2, s2) = add_job (scheduler self1) aggregate_and_send_metrics_task
                                         (unleash_metrics_interval self1)
                        in self1\<lparr>scheduler := s2, metric_job := Some j2\<rparr>)
                  else self1)
           in (Inr (), self2\<lparr>is_initialized := True\<rparr>)))"

definition initialize_client ::
  "fetcher \<Rightarrow> client \<times> call list \<Rightarrow> (exn + unit) \<times> client \<times> call list" where
  "initialize_client fetch st =
     (let (self, log) = st;
          log1 = register_step self log;
          (self1, log2) = fetch_step fetch self log1;
          (r, self2) = start_jobs self1
      in (r, self2, log2))"

subsection \<open>Teardown\<close>

text \<open>
  \<open>destroy\<close>. \<open>self.fl_job\<close> is \<open>None\<close> until \<open>initialize_client\<close> assigns it, and \<open>None\<close>
  has no attribute \<open>remove\<close>. A job object is truthy, so \<^verbatim>\<open>if self.metric_job\<close> asks
  whether the attribute is not \<open>None\<close>.
\<close>

definition destroy :: "client \<Rightarrow> (exn + unit) \<times> client" where
  "destroy self =
     (case fl_job self of
        None \<Rightarrow> (Inl AttributeError, self)
      | Some j1 \<Rightarrow>
          (case job_remove (scheduler self) j1 of
             Inl e \<Rightarrow> (Inl e, self)
           | Inr s1 \<Rightarrow>
               (case (case metric_job self of
                        None \<Rightarrow> Inr s1
                      | Some j2 \<Rightarrow> job_remove s1 j2) of
                  Inl e \<Rightarrow> (Inl e, self\<lparr>scheduler := s1\<rparr>)
                | Inr s2 \<Rightarrow>
                    (case scheduler_shutdown s2 of
                       Inl e \<Rightarrow> (Inl e, self\<lparr>scheduler := s2\<rparr>)
                     | Inr s3 \<Rightarrow>
                         (Inr (), self\<lparr>scheduler := s3, cache := cache_delete (cache self)\<rparr>)))))"

subsection \<open>Evaluation\<close>

text \<open>
  \<open>is_enabled\<close> updates the dictionary it is given in place, so dictionaries live in a
  store, addressed by references. The default value of the parameter \<open>context\<close> is one
  dictionary object, made when the \<^verbatim>\<open>def\<close> is executed and shared by every call that
  leaves the argument out: the reference \<open>DEFAULT_CONTEXT\<close>. The parameter is annotated
  \<open>dict\<close>, and every reference of the store holds a dictionary. The two calls of
  \<open>LOGGER.warning\<close> in each default-returning branch are left out.
\<close>

type_synonym ref = nat

type_synonym store = "ref \<Rightarrow> dict"

definition DEFAULT_CONTEXT :: ref where
  "DEFAULT_CONTEXT = 0"

definition context_ref :: "ref option \<Rightarrow> ref" where
  "context_ref context = (case context of None \<Rightarrow> DEFAULT_CONTEXT | Some r \<Rightarrow> r)"

definition dict_update :: "store \<Rightarrow> ref \<Rightarrow> dict \<Rightarrow> store" where
  \<comment> \<open>\<^verbatim>\<open>d.update(other)\<close>: the entries of \<open>other\<close> replace those of \<open>d\<close>\<close>
  "dict_update h r other = h(r := h r ++ other)"

definition feature_is_enabled :: "client \<Rightarrow> string \<Rightarrow> dict \<Rightarrow> bool \<Rightarrow> exn + bool" where
  \<comment> \<open>\<^verbatim>\<open>self.features[feature_name].is_enabled(context, default_value)\<close>\<close>
  "feature_is_enabled self feature_name ctx default_value =
     (case features self feature_name of
        None \<Rightarrow> Inl KeyError
      | Some f \<Rightarrow> f ctx default_value)"

definition is_enabled ::
  "client \<Rightarrow> string \<Rightarrow> ref option \<Rightarrow> bool \<Rightarrow> store \<Rightarrow> (exn + bool) \<times> client \<times> store" where
  "is_enabled self feature_name context default_value h =
     (let r = context_ref context;
          h1 = dict_update h r (unleash_static_context self)
      in if is_initialized self then
           (case feature_is_enabled self feature_name (h1 r) default_value of
              Inr b \<Rightarrow> (Inr b, self, h1)
            | Inl excep \<Rightarrow> (Inr default_value, self, h1))
         else (Inr default_value, self, h1))"

subsection \<open>A concrete client\<close>

text \<open>
  The configuration of the repository's tests (\<open>tests/utilities/testing_constants.py\<close>),
  with a custom strategy registered under the built-in name \<open>default\<close>. The feature
  \<open>beta\<close> reads \<open>userId\<close> from the context and raises KeyError when it is missing; the
  feature \<open>app\<close> tells whether the context's \<open>appName\<close> is \<open>pytest\<close>.
\<close>

definition example_args :: init_args where
  "example_args =
     \<lparr>url = ''http://localhost:4242'',
      app_name = ''pytest'',
      environment = ''default'',
      instance_id = ''123'',
      refresh_interval = 10000,
      metrics_interval = 60000,
      disable_metrics = False,
      disable_registration = False,
      custom_headers = [''name'' \<mapsto> ''My random header.''],
      custom_strategies = [''default'' \<mapsto> CustomStrategy ''Mine'', ''mine'' \<mapsto> CustomStrategy ''Mine''],
      cache_directory = None\<rparr>"

definition example_fs :: filesystem where
  "example_fs appname dir = [''mlst'' \<mapsto> CachedTime 5]"

definition example_client :: client where
  "example_client = UnleashClient_init ''mlst'' example_fs 1000 example_args"

definition example_beta :: feature where
  "example_beta ctx default_value =
     (case getitem ctx ''userId'' of Inl e \<Rightarrow> Inl e | Inr v \<Rightarrow> Inr (v = PStr ''u1''))"

definition example_app :: feature where
  "example_app ctx default_value = Inr (ctx ''appName'' = Some (PStr ''pytest''))"

definition example_fetch :: fetcher where
  "example_fetch a = ([''beta'' \<mapsto> example_beta, ''app'' \<mapsto> example_app], fl_cache a)"

definition example_initialized :: client where
  "example_initialized = fst (snd (initialize_client example_fetch (example_client, [])))"

definition example_store :: store where
  "example_store = (\<lambda>r. Map.empty)(1 := [''appName'' \<mapsto> PStr ''other'', ''userId'' \<mapsto> PStr ''u1''])"

section \<open>The gradual rollout by session\<close>

lemma GradualRolloutSessionId_call_int:
  assumes "parameters ''percentage'' = Some (PInt p)"
      and "parameters ''groupId'' = Some g"
      and "ctx ''sessionId'' = Some sid"
  shows "GradualRolloutSessionId_call nh parameters (Some ctx) = Inr (p < nh sid g)"
  using assms by (simp add: GradualRolloutSessionId_call_def getitem_def lt_int_def)

text \<open>
  C1. The claim: the strategy is true if and only if the normalised hash of the session
  is below the percentage. The code compares the other way round, \<open>percentage < hash\<close>
  (lemma \<open>GradualRolloutSessionId_call_int\<close>). So at a percentage of 100, where every
  session whose hash is below 100 should be enabled, the strategy returns \<open>False\<close> for
  each of them.
\<close>

theorem GradualRolloutSessionId_full_rollout_disabled:
  assumes "nh sid g < 100"
  shows "GradualRolloutSessionId_call nh [''percentage'' \<mapsto> PInt 100, ''groupId'' \<mapsto> g]
           (Some [''sessionId'' \<mapsto> sid]) = Inr False"
  using assms by (simp add: GradualRolloutSessionId_call_def getitem_def lt_int_def)

theorem GradualRolloutSessionId_full_rollout_disabled_witness:
  "(\<lambda>s g. 30) (PStr ''s1'') (PStr ''g1'') < (100::int) \<and>
   GradualRolloutSessionId_call (\<lambda>s g. 30)
     [''percentage'' \<mapsto> PInt 100, ''groupId'' \<mapsto> PStr ''g1'']
     (Some [''sessionId'' \<mapsto> PStr ''s1'']) = Inr False"
proof -
  have h: "(\<lambda>s g. 30) (PStr ''s1'') (PStr ''g1'') < (100::int)" by simp
  show ?thesis
    using h GradualRolloutSessionId_full_rollout_disabled
              [of "\<lambda>s g. 30" "PStr ''s1''" "PStr ''g1''"]
    by simp
qed

section \<open>Construction of the client\<close>

text \<open>
  C2, as amended. The claim: on a name collision the custom strategy takes precedence.
  The code merges \<^verbatim>\<open>{**custom_strategies, **default_strategy_mapping}\<close>, so the built-in
  entry is the later one and wins: a built-in name is always bound to the built-in class,
  and a custom strategy is bound under every name that is not a built-in name.
\<close>

theorem builtin_strategy_wins:
  "(default_strategy_mapping name = Some b \<longrightarrow>
      strategy_mapping (UnleashClient_init K fs now a) name = Some b) \<and>
   (default_strategy_mapping name = None \<longrightarrow>
      strategy_mapping (UnleashClient_init K fs now a) name = custom_strategies a name)"
  by (simp add: UnleashClient_init_def map_add_def)

theorem builtin_strategy_wins_witness:
  "default_strategy_mapping ''default'' = Some Default \<and>
   custom_strategies example_args ''default'' = Some (CustomStrategy ''Mine'') \<and>
   strategy_mapping (UnleashClient_init ''mlst'' example_fs 1000 example_args) ''default''
     = Some Default \<and>
   default_strategy_mapping ''mine'' = None \<and>
   strategy_mapping (UnleashClient_init ''mlst'' example_fs 1000 example_args) ''mine''
     = Some (CustomStrategy ''Mine'')"
proof -
  have h1: "default_strategy_mapping ''default'' = Some Default"
    by (simp add: default_strategy_mapping_def)
  have h2: "default_strategy_mapping ''mine'' = None"
    by (simp add: default_strategy_mapping_def)
  show ?thesis
    using h1 h2
      builtin_strategy_wins [of "''default''" Default "''mlst''" example_fs 1000 example_args]
      builtin_strategy_wins [of "''mine''" Default "''mlst''" example_fs 1000 example_args]
    by (simp add: example_args_def)
qed

theorem custom_strategy_shadowed_counterexample:
  "custom_strategies example_args ''default'' = Some (CustomStrategy ''Mine'') \<and>
   default_strategy_mapping ''default'' = Some Default \<and>
   strategy_mapping (UnleashClient_init ''mlst'' example_fs 1000 example_args) ''default''
     \<noteq> Some (CustomStrategy ''Mine'')"
  by (simp add: UnleashClient_init_def example_args_def default_strategy_mapping_def map_add_def)

text \<open>
  C8. Whatever an earlier process left on disk for this instance, after construction the
  entry \<open>METRIC_LAST_SENT_TIME\<close> of the cache holds the time of construction, on disk
  (the buffer has been written out) and for every read.
\<close>

theorem init_resets_last_sent_time:
  "disk (cache (UnleashClient_init K fs now a)) K = Some (CachedTime now) \<and>
   buffer (cache (UnleashClient_init K fs now a)) = Map.empty \<and>
   cache_get (cache (UnleashClient_init K fs now a)) K = Some (CachedTime now)"
  by (simp add: UnleashClient_init_def cache_sync_def cache_setitem_def FileCache_def
      cache_get_def)

lemma init_static_context:
  "unleash_static_context (UnleashClient_init K fs now a) =
     static_context (unleash_app_name (UnleashClient_init K fs now a))
       (unleash_environment (UnleashClient_init K fs now a))"
  by (simp add: UnleashClient_init_def)

section \<open>Initialisation and teardown\<close>

lemma start_jobs_config:
  "unleash_static_context (snd (start_jobs self)) = unleash_static_context self \<and>
   unleash_app_name (snd (start_jobs self)) = unleash_app_name self \<and>
   unleash_environment (snd (start_jobs self)) = unleash_environment self \<and>
   unleash_disable_registration (snd (start_jobs self)) = unleash_disable_registration self \<and>
   unleash_url (snd (start_jobs self)) = unleash_url self \<and>
   unleash_instance_id (snd (start_jobs self)) = unleash_instance_id self \<and>
   unleash_metrics_interval (snd (start_jobs self)) = unleash_metrics_interval self"
  by (simp add: start_jobs_def Let_def split: sum.splits prod.splits)

lemma initialize_client_unfold:
  assumes "fetch (make_fl_args self) = (fs, ca)"
  shows "initialize_client fetch (self, log) =
           (fst (start_jobs (self\<lparr>features := fs, cache := ca\<rparr>)),
            snd (start_jobs (self\<lparr>features := fs, cache := ca\<rparr>)),
            register_step self log @
              [fetch_and_load_features_call (unleash_url self) (unleash_app_name self)
                 (unleash_instance_id self)])"
  using assms
  by (simp add: initialize_client_def fetch_step_def Let_def split: prod.splits)

lemma initialize_client_log:
  "snd (snd (initialize_client fetch (self, log))) =
     register_step self log @
       [fetch_and_load_features_call (unleash_url self) (unleash_app_name self)
          (unleash_instance_id self)]"
proof -
  obtain fs ca where f: "fetch (make_fl_args self) = (fs, ca)"
    by (cases "fetch (make_fl_args self)")
  show ?thesis by (simp add: initialize_client_unfold [of fetch self fs ca, OF f])
qed

lemma initialize_client_config:
  "unleash_static_context (fst (snd (initialize_client fetch (self, log))))
     = unleash_static_context self \<and>
   unleash_app_name (fst (snd (initialize_client fetch (self, log)))) = unleash_app_name self \<and>
   unleash_environment (fst (snd (initialize_client fetch (self, log))))
     = unleash_environment self \<and>
   unleash_disable_registration (fst (snd (initialize_client fetch (self, log))))
     = unleash_disable_registration self \<and>
   unleash_url (fst (snd (initialize_client fetch (self, log)))) = unleash_url self \<and>
   unleash_instance_id (fst (snd (initialize_client fetch (self, log))))
     = unleash_instance_id self \<and>
   unleash_metrics_interval (fst (snd (initialize_client fetch (self, log))))
     = unleash_metrics_interval self"
proof -
  obtain fs ca where f: "fetch (make_fl_args self) = (fs, ca)"
    by (cases "fetch (make_fl_args self)")
  from start_jobs_config [of "self\<lparr>features := fs, cache := ca\<rparr>"]
  show ?thesis by (simp add: initialize_client_unfold [of fetch self fs ca, OF f])
qed

text \<open>The calls to the server that two runs of \<open>initialize_client\<close> make.\<close>

lemma initialize_client_twice_log:
  "snd (snd (initialize_client fetch (snd (initialize_client fetch (self, log))))) =
     register_step self
       (register_step self log @
          [fetch_and_load_features_call (unleash_url self) (unleash_app_name self)
             (unleash_instance_id self)]) @
       [fetch_and_load_features_call (unleash_url self) (unleash_app_name self)
          (unleash_instance_id self)]"
proof -
  obtain r self1 log1 where once: "initialize_client fetch (self, log) = (r, self1, log1)"
    by (cases "initialize_client fetch (self, log)")
  have l1: "log1 = register_step self log @
       [fetch_and_load_features_call (unleash_url self) (unleash_app_name self)
          (unleash_instance_id self)]"
    using initialize_client_log [of fetch self log] once by simp
  have c1: "unleash_disable_registration self1 = unleash_disable_registration self"
    "unleash_url self1 = unleash_url self" "unleash_app_name self1 = unleash_app_name self"
    "unleash_instance_id self1 = unleash_instance_id self"
    "unleash_metrics_interval self1 = unleash_metrics_interval self"
    using initialize_client_config [of fetch self log] once by simp_all
  have "snd (snd (initialize_client fetch (self1, log1))) = register_step self1 log1 @
       [fetch_and_load_features_call (unleash_url self1) (unleash_app_name self1)
          (unleash_instance_id self1)]"
    by (rule initialize_client_log)
  with l1 c1 once show ?thesis by (simp add: register_step_def)
qed

text \<open>
  Once the scheduler runs, \<open>start_jobs\<close> raises and assigns nothing: a second run of
  \<open>initialize_client\<close> that follows a successful one registers, fetches and then fails in
  \<^verbatim>\<open>self.scheduler.start()\<close>.
\<close>

lemma start_jobs_running:
  assumes "running (scheduler self)"
  shows "start_jobs self = (Inl SchedulerAlreadyRunningError, self)"
  using assms by (simp add: start_jobs_def scheduler_start_def)

lemma start_jobs_success_running:
  assumes "fst (start_jobs self) = Inr ()"
  shows "running (scheduler (snd (start_jobs self)))"
  using assms
  by (simp add: start_jobs_def scheduler_start_def add_job_def Let_def split: if_splits)

lemma initialize_client_second_raises:
  assumes "fst (initialize_client fetch (self, log)) = Inr ()"
  shows "fst (initialize_client fetch (snd (initialize_client fetch (self, log))))
           = Inl SchedulerAlreadyRunningError"
proof -
  obtain fs ca where f: "fetch (make_fl_args self) = (fs, ca)"
    by (cases "fetch (make_fl_args self)")
  define self1 where "self1 = snd (start_jobs (self\<lparr>features := fs, cache := ca\<rparr>))"
  define log1 where "log1 = register_step self log @
      [fetch_and_load_features_call (unleash_url self) (unleash_app_name self)
         (unleash_instance_id self)]"
  have once: "snd (initialize_client fetch (self, log)) = (self1, log1)"
    by (simp add: initialize_client_unfold [of fetch self fs ca, OF f] self1_def log1_def)
  have "fst (start_jobs (self\<lparr>features := fs, cache := ca\<rparr>)) = Inr ()"
    using assms by (simp add: initialize_client_unfold [of fetch self fs ca, OF f])
  then have run: "running (scheduler self1)"
    unfolding self1_def by (rule start_jobs_success_running)
  obtain fs2 ca2 where f2: "fetch (make_fl_args self1) = (fs2, ca2)"
    by (cases "fetch (make_fl_args self1)")
  have "running (scheduler (self1\<lparr>features := fs2, cache := ca2\<rparr>))"
    using run by simp
  then have "start_jobs (self1\<lparr>features := fs2, cache := ca2\<rparr>)
               = (Inl SchedulerAlreadyRunningError, self1\<lparr>features := fs2, cache := ca2\<rparr>)"
    by (rule start_jobs_running)
  then show ?thesis
    by (simp add: once initialize_client_unfold [of fetch self1 fs2 ca2, OF f2])
qed

text \<open>
  C7, as amended. The claim: \<open>initialize_client\<close> is idempotent. The code has no guard
  against a second run: every run on a client with registration enabled sends one
  registration and runs one fetch, so two runs register twice and fetch twice.
\<close>

theorem initialize_client_twice_registers_twice:
  assumes "\<not> unleash_disable_registration self"
  shows "snd (snd (initialize_client fetch (snd (initialize_client fetch (self, log))))) =
           log @
           [register_client_call (unleash_url self) (unleash_app_name self)
              (unleash_instance_id self) (unleash_metrics_interval self),
            fetch_and_load_features_call (unleash_url self) (unleash_app_name self)
              (unleash_instance_id self),
            register_client_call (unleash_url self) (unleash_app_name self)
              (unleash_instance_id self) (unleash_metrics_interval self),
            fetch_and_load_features_call (unleash_url self) (unleash_app_name self)
              (unleash_instance_id self)]"
  using assms by (simp add: initialize_client_twice_log register_step_def)

lemma example_client_registers: "\<not> unleash_disable_registration example_client"
  by (simp add: example_client_def UnleashClient_init_def example_args_def)

lemma example_client_identity:
  "unleash_url example_client = ''http://localhost:4242'' \<and>
   unleash_app_name example_client = ''pytest'' \<and>
   unleash_instance_id example_client = ''123'' \<and>
   unleash_metrics_interval example_client = 60000"
  by (simp add: example_client_def UnleashClient_init_def example_args_def rstrip_def)

theorem initialize_client_twice_registers_twice_witness:
  "\<not> unleash_disable_registration example_client \<and>
   snd (snd (initialize_client example_fetch
               (snd (initialize_client example_fetch (example_client, []))))) =
     [register_client_call ''http://localhost:4242'' ''pytest'' ''123'' 60000,
      fetch_and_load_features_call ''http://localhost:4242'' ''pytest'' ''123'',
      register_client_call ''http://localhost:4242'' ''pytest'' ''123'' 60000,
      fetch_and_load_features_call ''http://localhost:4242'' ''pytest'' ''123'']"
  using example_client_registers
    initialize_client_twice_registers_twice [OF example_client_registers, of example_fetch "[]"]
  by (simp add: example_client_identity)

theorem initialize_client_not_idempotent_counterexample:
  "snd (initialize_client example_fetch
          (snd (initialize_client example_fetch (example_client, []))))
     \<noteq> snd (initialize_client example_fetch (example_client, []))"
proof
  assume eq: "snd (initialize_client example_fetch
                (snd (initialize_client example_fetch (example_client, []))))
     = snd (initialize_client example_fetch (example_client, []))"
  have "length (snd (snd (initialize_client example_fetch
          (snd (initialize_client example_fetch (example_client, [])))))) = 4"
    using example_client_registers by (simp add: initialize_client_twice_log register_step_def)
  moreover have "length (snd (snd (initialize_client example_fetch (example_client, [])))) = 2"
    using example_client_registers by (simp add: initialize_client_log register_step_def)
  ultimately show False using eq by simp
qed

text \<open>
  C10. On a client that was constructed and never initialised, \<open>fl_job\<close> is \<open>None\<close> and
  \<open>destroy\<close> raises AttributeError at its first statement, leaving the client as it was.
\<close>

theorem destroy_before_initialize_raises:
  "fl_job (UnleashClient_init K fs now a) = None \<and>
   destroy (UnleashClient_init K fs now a) = (Inl AttributeError, UnleashClient_init K fs now a)"
  by (simp add: UnleashClient_init_def destroy_def)

text \<open>After a first, successful initialisation \<open>destroy\<close> runs to its end.\<close>

lemma destroy_after_initialize_client:
  "fst (initialize_client fetch (UnleashClient_init K fs now a, log)) = Inr () \<and>
   fst (destroy (fst (snd (initialize_client fetch (UnleashClient_init K fs now a, log)))))
     = Inr ()"
proof -
  define c0 where "c0 = UnleashClient_init K fs now a"
  obtain fts ca where f: "fetch (make_fl_args c0) = (fts, ca)"
    by (cases "fetch (make_fl_args c0)")
  have i: "initialize_client fetch (c0, log) =
             (fst (start_jobs (c0\<lparr>features := fts, cache := ca\<rparr>)),
              snd (start_jobs (c0\<lparr>features := fts, cache := ca\<rparr>)),
              register_step c0 log @
                [fetch_and_load_features_call (unleash_url c0) (unleash_app_name c0)
                   (unleash_instance_id c0)])"
    using f by (rule initialize_client_unfold)
  have s: "scheduler c0 = BackgroundScheduler" "fl_job c0 = None" "metric_job c0 = None"
    by (simp_all add: c0_def UnleashClient_init_def)
  have "fst (initialize_client fetch (c0, log)) = Inr () \<and>
        fst (destroy (fst (snd (initialize_client fetch (c0, log))))) = Inr ()"
    unfolding i
    by (simp add: s start_jobs_def scheduler_start_def add_job_def BackgroundScheduler_def
        destroy_def job_remove_def scheduler_shutdown_def Let_def)
  then show ?thesis by (simp add: c0_def)
qed

section \<open>Evaluation of a feature\<close>

lemma example_initialized_eq:
  "is_initialized example_initialized \<and>
   features example_initialized = [''beta'' \<mapsto> example_beta, ''app'' \<mapsto> example_app] \<and>
   unleash_static_context example_initialized = static_context ''pytest'' ''default'' \<and>
   unleash_app_name example_initialized = ''pytest'' \<and>
   unleash_environment example_initialized = ''default''"
  by (simp add: example_initialized_def initialize_client_def fetch_step_def start_jobs_def
      scheduler_start_def add_job_def example_fetch_def example_client_def UnleashClient_init_def
      BackgroundScheduler_def example_args_def Let_def)

text \<open>
  C3. On an initialised client, when the lookup of the feature or its evaluation on the
  merged context raises an exception, \<open>is_enabled\<close> returns the default value (it
  returns, it does not raise), and the client's \<open>features\<close> mapping after the call is the
  one before.
\<close>

theorem is_enabled_exception_returns_default:
  assumes "is_initialized self"
      and "feature_is_enabled self feature_name
             (h (context_ref context) ++ unleash_static_context self) default_value = Inl e"
  shows "fst (is_enabled self feature_name context default_value h) = Inr default_value \<and>
         features (fst (snd (is_enabled self feature_name context default_value h)))
           = features self"
  using assms by (simp add: is_enabled_def dict_update_def Let_def)

theorem is_enabled_exception_returns_default_witness:
  "is_initialized example_initialized \<and>
   feature_is_enabled example_initialized ''beta''
     (example_store (context_ref (Some 2)) ++ unleash_static_context example_initialized) True
     = Inl KeyError \<and>
   fst (is_enabled example_initialized ''beta'' (Some 2) True example_store) = Inr True \<and>
   features (fst (snd (is_enabled example_initialized ''beta'' (Some 2) True example_store))) =
     features example_initialized"
proof -
  have i: "is_initialized example_initialized" by (simp add: example_initialized_eq)
  have f: "feature_is_enabled example_initialized ''beta''
     (example_store (context_ref (Some 2)) ++ unleash_static_context example_initialized) True
     = Inl KeyError"
    by (simp add: feature_is_enabled_def example_initialized_eq example_beta_def getitem_def
        example_store_def context_ref_def static_context_def map_add_def)
  show ?thesis
    using i f is_enabled_exception_returns_default
                [of example_initialized "''beta''" example_store "Some 2" True KeyError]
    by simp
qed

text \<open>
  C4. On a client that is not initialised, \<open>is_enabled\<close> returns the default value, for
  every feature name, context and default value.
\<close>

theorem is_enabled_uninitialized_returns_default:
  assumes "\<not> is_initialized self"
  shows "fst (is_enabled self feature_name context default_value h) = Inr default_value"
  using assms by (simp add: is_enabled_def Let_def)

theorem is_enabled_uninitialized_returns_default_witness:
  "\<not> is_initialized example_client \<and>
   fst (is_enabled example_client ''beta'' (Some 1) True example_store) = Inr True"
proof -
  have i: "\<not> is_initialized example_client"
    by (simp add: example_client_def UnleashClient_init_def)
  show ?thesis using i is_enabled_uninitialized_returns_default [OF i] by simp
qed

text \<open>
  C5. On an initialised client, \<open>is_enabled\<close> of a feature name that the \<open>features\<close>
  mapping does not hold returns the default value, and does not raise.
\<close>

theorem is_enabled_unknown_feature_returns_default:
  assumes "is_initialized self" and "features self feature_name = None"
  shows "fst (is_enabled self feature_name context default_value h) = Inr default_value"
  using assms by (simp add: is_enabled_def feature_is_enabled_def Let_def)

theorem is_enabled_unknown_feature_returns_default_witness:
  "is_initialized example_initialized \<and> features example_initialized ''gamma'' = None \<and>
   fst (is_enabled example_initialized ''gamma'' None True example_store) = Inr True"
proof -
  have i: "is_initialized example_initialized" by (simp add: example_initialized_eq)
  have f: "features example_initialized ''gamma'' = None" by (simp add: example_initialized_eq)
  show ?thesis using i f is_enabled_unknown_feature_returns_default [OF i f] by simp
qed

text \<open>
  C6. The static context of a client is the one \<open>__init__\<close> builds from the application
  name and the environment (lemma \<open>init_static_context\<close>; \<open>initialize_client\<close> keeps it,
  lemma \<open>initialize_client_config\<close>). For such a client, the context dictionary that
  \<open>is_enabled\<close> works on holds the client's application name under \<open>appName\<close> and the
  client's environment under \<open>environment\<close>, whatever the caller supplied under these
  keys, and it is this dictionary that the feature is evaluated on.
\<close>

theorem is_enabled_static_context_wins:
  assumes "unleash_static_context self =
             static_context (unleash_app_name self) (unleash_environment self)"
  shows "snd (snd (is_enabled self feature_name context default_value h))
           (context_ref context) ''appName'' = Some (PStr (unleash_app_name self)) \<and>
         snd (snd (is_enabled self feature_name context default_value h))
           (context_ref context) ''environment'' = Some (PStr (unleash_environment self)) \<and>
         (is_initialized self \<longrightarrow> features self feature_name = Some f \<longrightarrow>
            fst (is_enabled self feature_name context default_value h) =
              Inr (case f (snd (snd (is_enabled self feature_name context default_value h))
                             (context_ref context)) default_value of
                     Inr b \<Rightarrow> b | Inl excep \<Rightarrow> default_value))"
  using assms
  by (simp add: is_enabled_def dict_update_def feature_is_enabled_def static_context_def Let_def
      split: sum.splits)

theorem is_enabled_static_context_wins_witness:
  "unleash_static_context example_initialized =
     static_context (unleash_app_name example_initialized)
       (unleash_environment example_initialized) \<and>
   is_initialized example_initialized \<and> features example_initialized ''app'' = Some example_app \<and>
   example_store (context_ref (Some 1)) ''appName'' = Some (PStr ''other'') \<and>
   snd (snd (is_enabled example_initialized ''app'' (Some 1) False example_store))
     (context_ref (Some 1)) ''appName'' = Some (PStr ''pytest'') \<and>
   fst (is_enabled example_initialized ''app'' (Some 1) False example_store) = Inr True"
proof -
  have s: "unleash_static_context example_initialized =
     static_context (unleash_app_name example_initialized)
       (unleash_environment example_initialized)"
    by (simp add: example_initialized_eq)
  have i: "is_initialized example_initialized" by (simp add: example_initialized_eq)
  have f: "features example_initialized ''app'' = Some example_app"
    by (simp add: example_initialized_eq)
  have o: "example_store (context_ref (Some 1)) ''appName'' = Some (PStr ''other'')"
    by (simp add: example_store_def context_ref_def)
  from is_enabled_static_context_wins
         [OF s, of "''app''" "Some 1" False example_store example_app]
  show ?thesis using s i f o by (simp add: example_app_def example_initialized_eq)
qed

text \<open>
  C9. \<open>is_enabled\<close> updates the dictionary it is given in place: after the call that
  dictionary is the one before, overwritten with the client's static context, so it holds
  \<open>appName\<close> and \<open>environment\<close> with the client's values; no other dictionary of the
  store changes. A call that leaves the context out updates the shared default
  dictionary, and the next such call (of any client) starts from what the first left
  there.
\<close>

theorem is_enabled_mutates_context:
  "snd (snd (is_enabled self feature_name context default_value h)) (context_ref context) =
     h (context_ref context) ++ unleash_static_context self \<and>
   (unleash_static_context self = static_context name env \<longrightarrow>
      snd (snd (is_enabled self feature_name context default_value h))
        (context_ref context) ''appName'' = Some (PStr name) \<and>
      snd (snd (is_enabled self feature_name context default_value h))
        (context_ref context) ''environment'' = Some (PStr env)) \<and>
   (\<forall>r. r \<noteq> context_ref context \<longrightarrow>
      snd (snd (is_enabled self feature_name context default_value h)) r = h r) \<and>
   snd (snd (is_enabled self feature_name None default_value h)) DEFAULT_CONTEXT =
     h DEFAULT_CONTEXT ++ unleash_static_context self \<and>
   snd (snd (is_enabled self2 feature_name2 None default_value2
      (snd (snd (is_enabled self feature_name None default_value h))))) DEFAULT_CONTEXT =
     h DEFAULT_CONTEXT ++ unleash_static_context self ++ unleash_static_context self2"
  by (simp add: is_enabled_def dict_update_def context_ref_def static_context_def Let_def
      split: sum.splits)

theorem is_enabled_mutates_context_witness:
  "unleash_static_context example_initialized = static_context ''pytest'' ''default'' \<and>
   example_store 1 = [''appName'' \<mapsto> PStr ''other'', ''userId'' \<mapsto> PStr ''u1''] \<and>
   snd (snd (is_enabled example_initialized ''beta'' (Some 1) False example_store)) 1 =
     [''appName'' \<mapsto> PStr ''pytest'', ''userId'' \<mapsto> PStr ''u1'',
      ''environment'' \<mapsto> PStr ''default''] \<and>
   (2::nat) \<noteq> context_ref (Some 1) \<and>
   snd (snd (is_enabled example_initialized ''beta'' (Some 1) False example_store)) 2 =
     example_store 2 \<and>
   example_store DEFAULT_CONTEXT = Map.empty \<and>
   snd (snd (is_enabled example_initialized ''beta'' None False example_store)) DEFAULT_CONTEXT =
     [''appName'' \<mapsto> PStr ''pytest'', ''environment'' \<mapsto> PStr ''default'']"
proof -
  have s: "unleash_static_context example_initialized = static_context ''pytest'' ''default''"
    by (simp add: example_initialized_eq)
  have r: "(2::nat) \<noteq> context_ref (Some 1)" by (simp add: context_ref_def)
  have e: "example_store 1 = [''appName'' \<mapsto> PStr ''other'', ''userId'' \<mapsto> PStr ''u1'']"
    "example_store DEFAULT_CONTEXT = Map.empty"
    by (simp_all add: example_store_def DEFAULT_CONTEXT_def)
  have m: "[''appName'' \<mapsto> PStr ''other'', ''userId'' \<mapsto> PStr ''u1'']
             ++ static_context ''pytest'' ''default'' =
           [''appName'' \<mapsto> PStr ''pytest'', ''userId'' \<mapsto> PStr ''u1'',
            ''environment'' \<mapsto> PStr ''default'']"
    by (rule ext) (simp add: static_context_def map_add_def)
  from is_enabled_mutates_context
         [of example_initialized "''beta''" "Some 1" False example_store
             "''pytest''" "''default''" example_initialized "''beta''" False]
  show ?thesis using s r e m by (simp add: context_ref_def static_context_def)
qed

end
